theory Spec2Isabelle
  imports Complex_Main "HOL-Library.Sublist"
begin

section \<open>The PawStore storefront component (frontend/src/App.js)\<close>

text \<open>
  The repository is one React component, \<^verbatim>\<open>App\<close>: eight state hooks, six asynchronous
  operations that call the backend with \<^verbatim>\<open>fetch\<close>, and a render function whose handlers
  call those operations. The embedding keeps the source's names.

  What is modelled and how:
  \<^item> JavaScript values are the datatype \<open>jsval\<close>. Numbers are exact rationals plus \<open>NaN\<close>;
    rounding and the infinities of IEEE doubles are not modelled. A string is the list
    of its characters, one \<open>char\<close> each, which is exact for ASCII text.
  \<^item> The hooks are the record \<open>app_state\<close>; every setter call is both applied to the record
    and appended to a trace of effects, so that the order of requests, state changes,
    alerts and console output can be stated.
  \<^item> The backend is a function from the requests received so far and the current request
    to the outcome of \<^verbatim>\<open>fetch\<close>; nothing is assumed about it.
  \<^item> An exception is a value: a \<^verbatim>\<open>try\<close> block is a function returning \<open>exn + 'a\<close> with the
    system state, and the \<^verbatim>\<open>catch\<close> block is the branch on \<open>Inl\<close>. The first component of an
    operation's result says how its promise settles (\<open>Inr ()\<close>: fulfilled, \<open>Inl e\<close>: rejected).
  \<^item> Each asynchronous operation runs to completion where it is called. The interleaving
    of the continuations of operations that are started without \<^verbatim>\<open>await\<close> is not modelled.
  \<^item> A template literal is the list of its pieces, with the interpolated values kept as
    values; the argument of \<^verbatim>\<open>JSON.stringify\<close> is kept as the value it is applied to.
\<close>

subsection \<open>JavaScript values\<close>

datatype jsval =
    Undefined
  | Null
  | Bool bool
  | Num rat
  | NaN
  | Str string
  | Arr "jsval list"
  | Obj "(string \<times> jsval) list"

datatype exn = FetchRejected | SyntaxError | TypeError | InvalidChild

text \<open>
  Reading a property, \<^verbatim>\<open>v.k\<close>. It throws a TypeError on \<^verbatim>\<open>undefined\<close> and \<^verbatim>\<open>null\<close>. An object
  parsed from JSON has the properties of its text; an array and a string have \<^verbatim>\<open>length\<close>.
  Properties inherited from a prototype are not modelled: the source reads only
  \<^verbatim>\<open>products\<close>, \<^verbatim>\<open>cart\<close>, \<^verbatim>\<open>items\<close>, \<^verbatim>\<open>total\<close>, \<^verbatim>\<open>order_id\<close>, \<^verbatim>\<open>id\<close>, \<^verbatim>\<open>product_id\<close>, \<^verbatim>\<open>quantity\<close>
  and \<^verbatim>\<open>length\<close> as data.
\<close>

fun js_get :: "jsval \<Rightarrow> string \<Rightarrow> exn + jsval" where
  "js_get Undefined k = Inl TypeError"
| "js_get Null k = Inl TypeError"
| "js_get (Obj fs) k = Inr (case map_of fs k of Some v \<Rightarrow> v | None \<Rightarrow> Undefined)"
| "js_get (Arr xs) k = Inr (if k = ''length'' then Num (of_nat (length xs)) else Undefined)"
| "js_get (Str s) k = Inr (if k = ''length'' then Num (of_nat (length s)) else Undefined)"
| "js_get v k = Inr Undefined"


text \<open>
  The two abstract operations of the language that format and parse floating-point
  numbers, \<^verbatim>\<open>ToString\<close> and \<^verbatim>\<open>StringToNumber\<close>, belong to the JavaScript engine. They
  are taken as parameters; the arithmetic on values that are not strings, arrays or
  objects is written out.
\<close>

record runtime =
  ToString :: "jsval \<Rightarrow> string"
  StringToNumber :: "string \<Rightarrow> jsval"

fun ToNumber :: "runtime \<Rightarrow> jsval \<Rightarrow> jsval" where
  "ToNumber rt Undefined = NaN"
| "ToNumber rt Null = Num 0"
| "ToNumber rt (Bool b) = Num (if b then 1 else 0)"
| "ToNumber rt (Num q) = Num q"
| "ToNumber rt NaN = NaN"
| "ToNumber rt (Str s) = StringToNumber rt s"
| "ToNumber rt v = StringToNumber rt (ToString rt v)"

fun stringy :: "jsval \<Rightarrow> bool" where
  "stringy (Str s) = True"
| "stringy (Arr xs) = True"
| "stringy (Obj fs) = True"
| "stringy v = False"

text \<open>\<^verbatim>\<open>a - b\<close>: both operands are converted to numbers.\<close>

definition js_minus :: "runtime \<Rightarrow> jsval \<Rightarrow> jsval \<Rightarrow> jsval" where
  "js_minus rt a b =
     (case (ToNumber rt a, ToNumber rt b) of
        (Num x, Num y) \<Rightarrow> Num (x - y)
      | _ \<Rightarrow> NaN)"

text \<open>
  \<^verbatim>\<open>a + b\<close>: string concatenation when either operand is, or converts to, a string;
  the sum of the two numbers otherwise.
\<close>

definition js_plus :: "runtime \<Rightarrow> jsval \<Rightarrow> jsval \<Rightarrow> jsval" where
  "js_plus rt a b =
     (if stringy a \<or> stringy b then Str (ToString rt a @ ToString rt b)
      else (case (ToNumber rt a, ToNumber rt b) of
              (Num x, Num y) \<Rightarrow> Num (x + y)
            | _ \<Rightarrow> NaN))"

text \<open>\<^verbatim>\<open>a > 0\<close>: false when \<open>a\<close> converts to \<open>NaN\<close>.\<close>

definition js_gt0 :: "runtime \<Rightarrow> jsval \<Rightarrow> bool" where
  "js_gt0 rt a = (case ToNumber rt a of Num x \<Rightarrow> 0 < x | _ \<Rightarrow> False)"

subsection \<open>Requests, responses and effects\<close>

datatype http_method = GET | POST | PUT | DELETE

text \<open>
  A piece of a template literal. \<open>API_BASE\<close> is the constant of line 4,
  \<^verbatim>\<open>process.env.REACT_APP_BACKEND_URL || 'http://localhost:8001'\<close>.
\<close>

datatype piece = API_BASE | Lit string | Val jsval

record request =
  req_method :: http_method
  url :: "piece list"
  headers :: "(string \<times> string) list"
  body :: "jsval option"

text \<open>
  What \<^verbatim>\<open>await fetch(...)\<close> gives: the promise is rejected, or it resolves to a response
  whose \<^verbatim>\<open>json()\<close> either fails to parse or yields a value. The status code is never read
  by the source, so it is not part of the response.
\<close>

datatype response = Unparsable | Json jsval

datatype fetch_result = Rejected | Resolved response

type_synonym backend = "request list \<Rightarrow> request \<Rightarrow> fetch_result"

record customer_info =
  name :: string
  email :: string
  phone :: string
  address :: string

datatype setter =
    SetProducts jsval
  | SetCart jsval
  | SetSelectedProduct jsval
  | SetShowCart bool
  | SetShowCheckout bool
  | SetLoading bool
  | SetCustomerInfo customer_info

datatype effect =
    Fetch request
  | Set setter
  | ConsoleError string exn
  | Alert "piece list"
  | PreventDefault
  | Uncaught exn

subsection \<open>The state hooks (lines 7 to 19)\<close>

record app_state =
  products :: jsval
  cart :: jsval
  selectedProduct :: jsval
  showCart :: bool
  showCheckout :: bool
  sessionId :: string
  loading :: bool
  customerInfo :: customer_info

record sys =
  state :: app_state
  trace :: "effect list"

definition empty_cart :: jsval where
  "empty_cart = Obj [(''items'', Arr []), (''total'', Num 0)]"

definition empty_customer :: customer_info where
  "empty_customer = \<lparr>name = '''', email = '''', phone = '''', address = ''''\<rparr>"

text \<open>
  The initial state. The session identifier is the value of
  \<^verbatim>\<open>Math.random().toString(36).substring(7)\<close>, computed by the lazy initialiser of its hook
  on the first render; it is the parameter \<open>sid\<close>. The hook has no setter.
\<close>

definition init :: "string \<Rightarrow> sys" where
  "init sid =
     \<lparr>state = \<lparr>products = Arr [], cart = empty_cart, selectedProduct = Null,
               showCart = False, showCheckout = False, sessionId = sid,
               loading = True, customerInfo = empty_customer\<rparr>,
      trace = []\<rparr>"

fun apply_setter :: "setter \<Rightarrow> app_state \<Rightarrow> app_state" where
  "apply_setter (SetProducts v) a = a\<lparr>products := v\<rparr>"
| "apply_setter (SetCart v) a = a\<lparr>cart := v\<rparr>"
| "apply_setter (SetSelectedProduct v) a = a\<lparr>selectedProduct := v\<rparr>"
| "apply_setter (SetShowCart b) a = a\<lparr>showCart := b\<rparr>"
| "apply_setter (SetShowCheckout b) a = a\<lparr>showCheckout := b\<rparr>"
| "apply_setter (SetLoading b) a = a\<lparr>loading := b\<rparr>"
| "apply_setter (SetCustomerInfo c) a = a\<lparr>customerInfo := c\<rparr>"

definition emit :: "effect \<Rightarrow> sys \<Rightarrow> sys" where
  "emit e s = s\<lparr>trace := trace s @ [e]\<rparr>"

definition set_state :: "setter \<Rightarrow> sys \<Rightarrow> sys" where
  "set_state x s = emit (Set x) (s\<lparr>state := apply_setter x (state s)\<rparr>)"

fun requests :: "effect list \<Rightarrow> request list" where
  "requests [] = []"
| "requests (Fetch r # es) = r # requests es"
| "requests (e # es) = requests es"

text \<open>\<^verbatim>\<open>await fetch(r)\<close>: the request is issued, then the promise settles.\<close>

definition fetch :: "backend \<Rightarrow> request \<Rightarrow> sys \<Rightarrow> (exn + response) \<times> sys" where
  "fetch be r s =
     (case be (requests (trace s)) r of
        Rejected \<Rightarrow> (Inl FetchRejected, emit (Fetch r) s)
      | Resolved resp \<Rightarrow> (Inr resp, emit (Fetch r) s))"

text \<open>\<^verbatim>\<open>await response.json()\<close>.\<close>

fun json :: "response \<Rightarrow> exn + jsval" where
  "json Unparsable = Inl SyntaxError"
| "json (Json v) = Inr v"

text \<open>Sequencing inside a \<^verbatim>\<open>try\<close> block: the first exception ends the block.\<close>

definition andThen :: "(exn + 'a) \<times> sys \<Rightarrow> ('a \<Rightarrow> sys \<Rightarrow> (exn + 'b) \<times> sys) \<Rightarrow> (exn + 'b) \<times> sys" where
  "andThen m f = (case m of (Inl e, s) \<Rightarrow> (Inl e, s) | (Inr x, s) \<Rightarrow> f x s)"

text \<open>\<^verbatim>\<open>catch (error) { console.error(msg, error); }\<close>\<close>

definition catch_log :: "string \<Rightarrow> (exn + unit) \<times> sys \<Rightarrow> (exn + unit) \<times> sys" where
  "catch_log msg m =
     (case m of
        (Inl e, s) \<Rightarrow> (Inr (), emit (ConsoleError msg e) s)
      | (Inr u, s) \<Rightarrow> (Inr (), s))"

subsection \<open>The six operations (lines 26 to 112)\<close>

definition get_request :: "piece list \<Rightarrow> request" where
  "get_request u = \<lparr>req_method = GET, url = u, headers = [], body = None\<rparr>"

definition products_request :: request where
  "products_request = get_request [API_BASE, Lit ''/api/products'']"

definition fetchProducts :: "backend \<Rightarrow> sys \<Rightarrow> (exn + unit) \<times> sys" where
  "fetchProducts be s =
     (case catch_log ''Error fetching products:''
        (andThen (fetch be products_request s) (\<lambda>response s1.
         andThen (json response, s1) (\<lambda>data s2.
         andThen (js_get data ''products'', s2) (\<lambda>ps s3.
           (Inr (), set_state (SetProducts ps) s3)))))
      of (r, s') \<Rightarrow> (r, set_state (SetLoading False) s'))"

definition cart_request :: "string \<Rightarrow> request" where
  "cart_request sid = get_request [API_BASE, Lit ''/api/cart/'', Val (Str sid)]"

definition fetchCart :: "backend \<Rightarrow> sys \<Rightarrow> (exn + unit) \<times> sys" where
  "fetchCart be s =
     catch_log ''Error fetching cart:''
       (andThen (fetch be (cart_request (sessionId (state s))) s) (\<lambda>response s1.
        andThen (json response, s1) (\<lambda>data s2.
          (Inr (), set_state (SetCart data) s2))))"

definition add_request :: "string \<Rightarrow> jsval \<Rightarrow> jsval \<Rightarrow> request" where
  "add_request sid productId quantity =
     \<lparr>req_method = POST,
      url = [API_BASE, Lit ''/api/cart/'', Val (Str sid), Lit ''/add?product_id='',
             Val productId, Lit ''&quantity='', Val quantity],
      headers = [], body = None\<rparr>"

text \<open>The parameter \<^verbatim>\<open>quantity = 1\<close>: the default replaces \<^verbatim>\<open>undefined\<close>.\<close>

definition addToCart :: "backend \<Rightarrow> jsval \<Rightarrow> jsval \<Rightarrow> sys \<Rightarrow> (exn + unit) \<times> sys" where
  "addToCart be productId quantity0 s =
     (let quantity = (if quantity0 = Undefined then Num 1 else quantity0) in
      catch_log ''Error adding to cart:''
        (andThen (fetch be (add_request (sessionId (state s)) productId quantity) s) (\<lambda>response s1.
         andThen (json response, s1) (\<lambda>data s2.
         andThen (js_get data ''cart'', s2) (\<lambda>c s3.
           (Inr (), emit (Alert [Lit ''Item added to cart!'']) (set_state (SetCart c) s3)))))))"

definition update_request :: "string \<Rightarrow> jsval \<Rightarrow> jsval \<Rightarrow> request" where
  "update_request sid productId quantity =
     \<lparr>req_method = PUT,
      url = [API_BASE, Lit ''/api/cart/'', Val (Str sid), Lit ''/update?product_id='',
             Val productId, Lit ''&quantity='', Val quantity],
      headers = [], body = None\<rparr>"

definition updateCartItem :: "backend \<Rightarrow> jsval \<Rightarrow> jsval \<Rightarrow> sys \<Rightarrow> (exn + unit) \<times> sys" where
  "updateCartItem be productId quantity s =
     catch_log ''Error updating cart:''
       (andThen (fetch be (update_request (sessionId (state s)) productId quantity) s) (\<lambda>response s1.
        andThen (json response, s1) (\<lambda>data s2.
        andThen (js_get data ''cart'', s2) (\<lambda>c s3.
          (Inr (), set_state (SetCart c) s3)))))"

definition remove_request :: "string \<Rightarrow> jsval \<Rightarrow> request" where
  "remove_request sid productId =
     \<lparr>req_method = DELETE,
      url = [API_BASE, Lit ''/api/cart/'', Val (Str sid), Lit ''/remove/'', Val productId],
      headers = [], body = None\<rparr>"

text \<open>
  The response of the DELETE is awaited and dropped; \<^verbatim>\<open>fetchCart()\<close> is then called
  without \<^verbatim>\<open>await\<close>, and handles its own exceptions.
\<close>

definition removeFromCart :: "backend \<Rightarrow> jsval \<Rightarrow> sys \<Rightarrow> (exn + unit) \<times> sys" where
  "removeFromCart be productId s =
     catch_log ''Error removing from cart:''
       (andThen (fetch be (remove_request (sessionId (state s)) productId) s) (\<lambda>response s1.
          (Inr (), snd (fetchCart be s1))))"

definition customer_obj :: "customer_info \<Rightarrow> jsval" where
  "customer_obj c =
     Obj [(''name'', Str (name c)), (''email'', Str (email c)),
          (''phone'', Str (phone c)), (''address'', Str (address c))]"

text \<open>The object \<^verbatim>\<open>orderData\<close> of lines 87 to 92; reading \<^verbatim>\<open>cart.items\<close> can throw.\<close>

definition orderData :: "app_state \<Rightarrow> exn + jsval" where
  "orderData a =
     (case js_get (cart a) ''items'' of
        Inl e \<Rightarrow> Inl e
      | Inr its \<Rightarrow>
          (case js_get (cart a) ''total'' of
             Inl e \<Rightarrow> Inl e
           | Inr tot \<Rightarrow>
               Inr (Obj [(''session_id'', Str (sessionId a)), (''items'', its),
                         (''total'', tot), (''customer_info'', customer_obj (customerInfo a))])))"

definition order_request :: "jsval \<Rightarrow> request" where
  "order_request od =
     \<lparr>req_method = POST, url = [API_BASE, Lit ''/api/orders''],
      headers = [(''Content-Type'', ''application/json'')], body = Some od\<rparr>"

definition submitOrder :: "backend \<Rightarrow> sys \<Rightarrow> (exn + unit) \<times> sys" where
  "submitOrder be s0 =
     (let s = emit PreventDefault s0 in
      case andThen (orderData (state s), s) (\<lambda>od s1.
           andThen (fetch be (order_request od) s1) (\<lambda>response s2.
           andThen (json response, s2) (\<lambda>data s3.
           andThen (js_get data ''order_id'', s3) (\<lambda>oid s4.
             (Inr (),
              set_state (SetCustomerInfo empty_customer)
                (set_state (SetCart empty_cart)
                  (set_state (SetShowCart False)
                    (set_state (SetShowCheckout False)
                      (emit (Alert [Lit ''Order submitted successfully! Order ID: '', Val oid]) s4)))))))))
      of (Inl e, s') \<Rightarrow>
           (Inr (), emit (Alert [Lit ''Error submitting order. Please try again.''])
                      (emit (ConsoleError ''Error submitting order:'' e) s'))
       | (Inr u, s') \<Rightarrow> (Inr (), s'))"

subsection \<open>The render function (lines 114 to 530)\<close>

text \<open>
  The component returns the loading screen while \<^verbatim>\<open>loading\<close> is set (line 114). Otherwise
  it evaluates the page: the header, the product cards, and the three conditional blocks
  \<^verbatim>\<open>{selectedProduct && (...)}\<close>, \<^verbatim>\<open>{showCart && (...)}\<close> and \<^verbatim>\<open>{showCheckout && (...)}\<close> of lines
  282, 359 and 454. None of the reads in it is guarded, so the evaluation can throw, and
  React then unmounts the component and shows nothing.

  The expressions of the page are embedded first, each as a function that returns the
  exception it throws or the values it places as children; then the render as a whole.
  Attribute values (\<^verbatim>\<open>key\<close>, \<^verbatim>\<open>src\<close>, \<^verbatim>\<open>alt\<close>, \<^verbatim>\<open>value\<close>) and the pieces of a template literal are
  turned into strings by the engine, which is taken not to throw, as \<open>ToString\<close> is.
\<close>

text \<open>The expression \<^verbatim>\<open>cart.items.length\<close> of the cart button's label (line 143).\<close>

definition cart_count :: "app_state \<Rightarrow> exn + jsval" where
  "cart_count a =
     (case js_get (cart a) ''items'' of
        Inl e \<Rightarrow> Inl e
      | Inr its \<Rightarrow> js_get its ''length'')"

text \<open>
  \<^verbatim>\<open>items.reduce((sum, item) => sum + item.quantity, 0)\<close> on the elements of an array,
  with the accumulator \<^verbatim>\<open>sum\<close> as the argument \<open>acc\<close>.
\<close>

fun reduce_quantity :: "runtime \<Rightarrow> jsval \<Rightarrow> jsval list \<Rightarrow> exn + jsval" where
  "reduce_quantity rt acc [] = Inr acc"
| "reduce_quantity rt acc (item # items) =
     (case js_get item ''quantity'' of
        Inl e \<Rightarrow> Inl e
      | Inr q \<Rightarrow> reduce_quantity rt (js_plus rt acc q) items)"

text \<open>
  The badge of lines 144 to 148: nothing unless \<^verbatim>\<open>cart.items.length > 0\<close>, and then the
  result of the \<^verbatim>\<open>reduce\<close>. A value that is not an array has no \<^verbatim>\<open>reduce\<close> method, and the
  call throws.
\<close>

definition cart_badge :: "runtime \<Rightarrow> app_state \<Rightarrow> exn + jsval option" where
  "cart_badge rt a =
     (case js_get (cart a) ''items'' of
        Inl e \<Rightarrow> Inl e
      | Inr its \<Rightarrow>
          (case js_get its ''length'' of
             Inl e \<Rightarrow> Inl e
           | Inr n \<Rightarrow>
               if js_gt0 rt n then
                 (case its of
                    Arr xs \<Rightarrow> map_sum id Some (reduce_quantity rt (Num 0) xs)
                  | _ \<Rightarrow> Inl TypeError)
               else Inr None))"

text \<open>
  \<^verbatim>\<open>v.toFixed(digits)\<close>: only a number has the method. The formatted text is kept as the
  number and the digits it was asked for.
\<close>

datatype formatted = Fixed rat nat | NaNText

fun toFixed :: "jsval \<Rightarrow> nat \<Rightarrow> exn + formatted" where
  "toFixed (Num q) digits = Inr (Fixed q digits)"
| "toFixed NaN digits = Inr NaNText"
| "toFixed v digits = Inl TypeError"

text \<open>The expression \<^verbatim>\<open>cart.total.toFixed(2)\<close> of both totals (lines 429 and 515).\<close>

definition cart_total :: "app_state \<Rightarrow> exn + formatted" where
  "cart_total a =
     (case js_get (cart a) ''total'' of
        Inl e \<Rightarrow> Inl e
      | Inr t \<Rightarrow> toFixed t 2)"

















subsection \<open>The event handlers\<close>

text \<open>
  One constructor for each handler of the render function and one for the mount
  effect of line 21. The value an event carries is the \<^verbatim>\<open>product\<close> or \<^verbatim>\<open>item\<close> its handler
  closes over, or the text of the input field. A handler drops the promise of the
  operation it starts; an exception thrown by the handler itself is uncaught.
\<close>

datatype event =
    Mount
  | ClickCart
  | ClickViewDetails jsval
  | ClickAddToCart jsval
  | CloseProduct
  | ClickModalAddToCart
  | CloseCart
  | ClickDecrement jsval
  | ClickIncrement jsval
  | ClickRemove jsval
  | ClickCheckout
  | CloseCheckout
  | ChangeName string
  | ChangeEmail string
  | ChangePhone string
  | ChangeAddress string
  | Submit

fun handle :: "runtime \<Rightarrow> backend \<Rightarrow> event \<Rightarrow> sys \<Rightarrow> sys" where
  "handle rt be Mount s = snd (fetchCart be (snd (fetchProducts be s)))"
| "handle rt be ClickCart s = set_state (SetShowCart True) s"
| "handle rt be (ClickViewDetails product) s = set_state (SetSelectedProduct product) s"
| "handle rt be (ClickAddToCart product) s =
     (case js_get product ''id'' of
        Inl e \<Rightarrow> emit (Uncaught e) s
      | Inr pid \<Rightarrow> snd (addToCart be pid Undefined s))"
| "handle rt be CloseProduct s = set_state (SetSelectedProduct Null) s"
| "handle rt be ClickModalAddToCart s =
     (case js_get (selectedProduct (state s)) ''id'' of
        Inl e \<Rightarrow> emit (Uncaught e) s
      | Inr pid \<Rightarrow> set_state (SetSelectedProduct Null) (snd (addToCart be pid Undefined s)))"
| "handle rt be CloseCart s = set_state (SetShowCart False) s"
| "handle rt be (ClickDecrement item) s =
     (case js_get item ''product_id'' of
        Inl e \<Rightarrow> emit (Uncaught e) s
      | Inr pid \<Rightarrow>
          (case js_get item ''quantity'' of
             Inl e \<Rightarrow> emit (Uncaught e) s
           | Inr q \<Rightarrow> snd (updateCartItem be pid (js_minus rt q (Num 1)) s)))"
| "handle rt be (ClickIncrement item) s =
     (case js_get item ''product_id'' of
        Inl e \<Rightarrow> emit (Uncaught e) s
      | Inr pid \<Rightarrow>
          (case js_get item ''quantity'' of
             Inl e \<Rightarrow> emit (Uncaught e) s
           | Inr q \<Rightarrow> snd (updateCartItem be pid (js_plus rt q (Num 1)) s)))"
| "handle rt be (ClickRemove item) s =
     (case js_get item ''product_id'' of
        Inl e \<Rightarrow> emit (Uncaught e) s
      | Inr pid \<Rightarrow> snd (removeFromCart be pid s))"
| "handle rt be ClickCheckout s = set_state (SetShowCheckout True) s"
| "handle rt be CloseCheckout s = set_state (SetShowCheckout False) s"
| "handle rt be (ChangeName v) s =
     set_state (SetCustomerInfo ((customerInfo (state s))\<lparr>name := v\<rparr>)) s"
| "handle rt be (ChangeEmail v) s =
     set_state (SetCustomerInfo ((customerInfo (state s))\<lparr>email := v\<rparr>)) s"
| "handle rt be (ChangePhone v) s =
     set_state (SetCustomerInfo ((customerInfo (state s))\<lparr>phone := v\<rparr>)) s"
| "handle rt be (ChangeAddress v) s =
     set_state (SetCustomerInfo ((customerInfo (state s))\<lparr>address := v\<rparr>)) s"
| "handle rt be Submit s = snd (submitOrder be s)"

text \<open>A session: the events of the component's life, in order.\<close>

fun run :: "runtime \<Rightarrow> backend \<Rightarrow> event list \<Rightarrow> sys \<Rightarrow> sys" where
  "run rt be [] s = s"
| "run rt be (ev # evs) s = run rt be evs (handle rt be ev s)"

subsection \<open>Endpoints\<close>

text \<open>
  The six request shapes of the source, by method and URL template, and the session
  identifier a request carries: the value interpolated after \<^verbatim>\<open>/api/cart/\<close>, or the
  \<^verbatim>\<open>session_id\<close> of an order.
\<close>

datatype endpoint = ListProducts | GetCart | AddItem | UpdateItem | RemoveItem | CreateOrder

definition is_val :: "piece \<Rightarrow> bool" where
  "is_val p = (case p of Val v \<Rightarrow> True | _ \<Rightarrow> False)"

definition endpoint_of :: "request \<Rightarrow> endpoint option" where
  "endpoint_of r =
     (let u = url r; cart_prefix = [API_BASE, Lit ''/api/cart/''] in
      if req_method r = GET \<and> u = [API_BASE, Lit ''/api/products''] then Some ListProducts
      else if req_method r = GET \<and> length u = 3 \<and> take 2 u = cart_prefix \<and> is_val (u ! 2)
        then Some GetCart
      else if req_method r = POST \<and> length u = 7 \<and> take 2 u = cart_prefix \<and> is_val (u ! 2)
              \<and> u ! 3 = Lit ''/add?product_id='' \<and> is_val (u ! 4)
              \<and> u ! 5 = Lit ''&quantity='' \<and> is_val (u ! 6)
        then Some AddItem
      else if req_method r = PUT \<and> length u = 7 \<and> take 2 u = cart_prefix \<and> is_val (u ! 2)
              \<and> u ! 3 = Lit ''/update?product_id='' \<and> is_val (u ! 4)
              \<and> u ! 5 = Lit ''&quantity='' \<and> is_val (u ! 6)
        then Some UpdateItem
      else if req_method r = DELETE \<and> length u = 5 \<and> take 2 u = cart_prefix \<and> is_val (u ! 2)
              \<and> u ! 3 = Lit ''/remove/'' \<and> is_val (u ! 4)
        then Some RemoveItem
      else if req_method r = POST \<and> u = [API_BASE, Lit ''/api/orders''] then Some CreateOrder
      else None)"

definition session_key :: "request \<Rightarrow> jsval option" where
  "session_key r =
     (case endpoint_of r of
        None \<Rightarrow> None
      | Some ListProducts \<Rightarrow> None
      | Some CreateOrder \<Rightarrow>
          (case body r of
             None \<Rightarrow> None
           | Some od \<Rightarrow> (case js_get od ''session_id'' of Inl e \<Rightarrow> None | Inr v \<Rightarrow> Some v))
      | Some ep \<Rightarrow> (case url r ! 2 of Val v \<Rightarrow> Some v | _ \<Rightarrow> None))"

text \<open>The requests an operation added to the trace.\<close>

definition new_requests :: "sys \<Rightarrow> sys \<Rightarrow> request list" where
  "new_requests s s' = drop (length (requests (trace s))) (requests (trace s'))"

subsection \<open>Example backends and values\<close>

definition backend_down :: backend where
  "backend_down h r = Rejected"

definition backend_garbled :: backend where
  "backend_garbled h r = Resolved Unparsable"


definition two_items :: jsval where
  "two_items =
     Obj [(''items'',
           Arr [Obj [(''product_id'', Str ''p1''), (''quantity'', Num 2), (''price'', Num 10)],
                Obj [(''product_id'', Str ''p2''), (''quantity'', Num 3), (''price'', Num 4)]]),
          (''total'', Num 32)]"

text \<open>A product.\<close>

definition brush :: jsval where
  "brush =
     Obj [(''id'', Str ''p1''), (''name'', Str ''Brush''), (''description'', Str ''Soft''),
          (''price'', Num 10), (''original_price'', Null), (''discount_percentage'', Null),
          (''rating'', Num 5), (''reviews_count'', Num 12), (''image_url'', Str ''brush.png''),
          (''images'', Arr [Str ''brush.png'']), (''features'', Arr [Str ''Gentle''])]"

text \<open>
  A backend that lists that product, answers a cart read with a cart of two items, and
  answers every other request with that cart wrapped as the mutation endpoints wrap it.
\<close>

definition backend_cart :: backend where
  "backend_cart h r =
     Resolved (Json (if r = products_request then Obj [(''products'', Arr [brush])]
                     else if req_method r = GET then two_items
                     else Obj [(''message'', Str ''ok''), (''cart'', two_items),
                               (''order_id'', Str ''o1'')]))"

definition no_coercion :: runtime where
  "no_coercion = \<lparr>ToString = (\<lambda>v. []), StringToNumber = (\<lambda>s. NaN)\<rparr>"

text \<open>A state in which the checkout form is open over a cart of two items.\<close>

definition checkout_open :: sys where
  "checkout_open =
     \<lparr>state = \<lparr>products = Arr [], cart = two_items, selectedProduct = Null,
               showCart = True, showCheckout = True, sessionId = ''abc'',
               loading = False,
               customerInfo = \<lparr>name = ''Ann'', email = ''ann@example.org'',
                               phone = ''555'', address = ''1 Main St''\<rparr>\<rparr>,
      trace = []\<rparr>"

text \<open>The order that \<open>submitOrder\<close> builds in that state.\<close>

definition checkout_order :: jsval where
  "checkout_order =
     Obj [(''session_id'', Str ''abc''),
          (''items'',
           Arr [Obj [(''product_id'', Str ''p1''), (''quantity'', Num 2), (''price'', Num 10)],
                Obj [(''product_id'', Str ''p2''), (''quantity'', Num 3), (''price'', Num 4)]]),
          (''total'', Num 32),
          (''customer_info'',
           Obj [(''name'', Str ''Ann''), (''email'', Str ''ann@example.org''),
                (''phone'', Str ''555''), (''address'', Str ''1 Main St'')])]"

text \<open>A cart item at quantity \<open>q\<close>.\<close>

definition item_at :: "rat \<Rightarrow> jsval" where
  "item_at q = Obj [(''product_id'', Str ''p1''), (''quantity'', Num q), (''price'', Num 10)]"

text \<open>A session that touches every operation: mount, add, decrement, remove, order.\<close>

definition tour :: "event list" where
  "tour = [Mount, ClickAddToCart brush, ClickDecrement (item_at 1),
           ClickRemove (item_at 1), Submit]"



subsection \<open>Vocabulary of the properties\<close>

text \<open>The exception that \<^verbatim>\<open>fetch\<close> or \<^verbatim>\<open>json()\<close> throws on an outcome, if any.\<close>

fun thrown :: "fetch_result \<Rightarrow> exn option" where
  "thrown Rejected = Some FetchRejected"
| "thrown (Resolved Unparsable) = Some SyntaxError"
| "thrown (Resolved (Json v)) = None"


text \<open>Every value that occurs in a value: the value itself, the elements of an
  array and the properties of an object, at any depth.\<close>

fun values_in :: "jsval \<Rightarrow> jsval list" where
  "values_in (Arr xs) = Arr xs # concat (map values_in xs)"
| "values_in (Obj fs) = Obj fs # concat (map (\<lambda>f. values_in (snd f)) fs)"
| "values_in v = [v]"

section \<open>Properties\<close>

subsection \<open>What each operation requests, and what it leaves alone\<close>

lemma requests_append: "requests (xs @ ys) = requests xs @ requests ys"
  by (induction xs rule: requests.induct) simp_all

lemmas step_defs = fetch_def andThen_def catch_log_def emit_def set_state_def

lemmas outcome_splits = fetch_result.splits response.splits sum.splits

lemma fetchProducts_session: "sessionId (state (snd (fetchProducts be s))) = sessionId (state s)"
  by (simp add: fetchProducts_def step_defs split: outcome_splits)

lemma fetchProducts_requests:
  "requests (trace (snd (fetchProducts be s))) = requests (trace s) @ [products_request]"
  by (simp add: fetchProducts_def step_defs requests_append split: outcome_splits)

lemma fetchCart_session: "sessionId (state (snd (fetchCart be s))) = sessionId (state s)"
  by (simp add: fetchCart_def step_defs split: outcome_splits)

lemma fetchCart_requests:
  "requests (trace (snd (fetchCart be s))) =
     requests (trace s) @ [cart_request (sessionId (state s))]"
  by (simp add: fetchCart_def step_defs requests_append split: outcome_splits)

lemma addToCart_session: "sessionId (state (snd (addToCart be pid q s))) = sessionId (state s)"
  by (simp add: addToCart_def step_defs Let_def split: outcome_splits)

lemma addToCart_requests:
  "requests (trace (snd (addToCart be pid q s))) =
     requests (trace s) @
       [add_request (sessionId (state s)) pid (if q = Undefined then Num 1 else q)]"
  by (simp add: addToCart_def step_defs Let_def requests_append split: outcome_splits)

lemma updateCartItem_session:
  "sessionId (state (snd (updateCartItem be pid q s))) = sessionId (state s)"
  by (simp add: updateCartItem_def step_defs split: outcome_splits)

lemma updateCartItem_requests:
  "requests (trace (snd (updateCartItem be pid q s))) =
     requests (trace s) @ [update_request (sessionId (state s)) pid q]"
  by (simp add: updateCartItem_def step_defs requests_append split: outcome_splits)

lemma removeFromCart_session:
  "sessionId (state (snd (removeFromCart be pid s))) = sessionId (state s)"
  by (simp add: removeFromCart_def fetchCart_def step_defs split: outcome_splits)

lemma removeFromCart_requests:
  "requests (trace (snd (removeFromCart be pid s))) =
     requests (trace s) @
       (if be (requests (trace s)) (remove_request (sessionId (state s)) pid) = Rejected
        then [remove_request (sessionId (state s)) pid]
        else [remove_request (sessionId (state s)) pid, cart_request (sessionId (state s))])"
  by (simp add: removeFromCart_def fetchCart_def step_defs requests_append
           split: outcome_splits)

lemma submitOrder_session: "sessionId (state (snd (submitOrder be s))) = sessionId (state s)"
  by (simp add: submitOrder_def step_defs Let_def split: outcome_splits)

lemma submitOrder_requests:
  "requests (trace (snd (submitOrder be s))) =
     requests (trace s) @
       (case orderData (state s) of Inl e \<Rightarrow> [] | Inr od \<Rightarrow> [order_request od])"
  by (simp add: submitOrder_def step_defs Let_def requests_append split: outcome_splits)

lemma set_state_session: "sessionId (state (set_state x s)) = sessionId (state s)"
  by (cases x) (simp_all add: set_state_def emit_def)

lemma set_state_requests: "requests (trace (set_state x s)) = requests (trace s)"
  by (simp add: set_state_def emit_def requests_append)

lemma emit_Uncaught_session: "sessionId (state (emit (Uncaught e) s)) = sessionId (state s)"
  by (simp add: emit_def)

lemma emit_Uncaught_requests: "requests (trace (emit (Uncaught e) s)) = requests (trace s)"
  by (simp add: emit_def requests_append)

lemmas op_session = fetchProducts_session fetchCart_session addToCart_session
  updateCartItem_session removeFromCart_session submitOrder_session set_state_session
  emit_Uncaught_session

lemmas op_requests = fetchProducts_requests fetchCart_requests addToCart_requests
  updateCartItem_requests removeFromCart_requests submitOrder_requests set_state_requests
  emit_Uncaught_requests

lemma handle_session: "sessionId (state (handle rt be ev s)) = sessionId (state s)"
  by (cases ev) (simp_all add: op_session split: sum.splits)

lemma run_session: "sessionId (state (run rt be evs s)) = sessionId (state s)"
  by (induction evs arbitrary: s) (simp_all add: handle_session)

lemma thrown_cases:
  "thrown x = Some e \<Longrightarrow>
     (x = Rejected \<and> e = FetchRejected) \<or> (x = Resolved Unparsable \<and> e = SyntaxError)"
  by (cases x rule: thrown.cases) simp_all

lemma orderData_checkout_open: "orderData (state checkout_open) = Inr checkout_order"
  by (simp add: orderData_def checkout_open_def two_items_def customer_obj_def
        checkout_order_def)

subsection \<open>Arithmetic on numbers\<close>

lemma js_plus_nums: "js_plus rt (Num a) (Num b) = Num (a + b)"
  by (simp add: js_plus_def)

lemma js_minus_nums: "js_minus rt (Num a) (Num b) = Num (a - b)"
  by (simp add: js_minus_def)

subsection \<open>The endpoint and the session key of each request\<close>

lemma endpoint_of_products: "endpoint_of products_request = Some ListProducts"
  by (simp add: endpoint_of_def products_request_def get_request_def)

lemma endpoint_of_cart: "endpoint_of (cart_request sid) = Some GetCart"
  by (simp add: endpoint_of_def cart_request_def get_request_def is_val_def)

lemma endpoint_of_add: "endpoint_of (add_request sid pid q) = Some AddItem"
  by (simp add: endpoint_of_def add_request_def is_val_def)

lemma endpoint_of_update: "endpoint_of (update_request sid pid q) = Some UpdateItem"
  by (simp add: endpoint_of_def update_request_def is_val_def)

lemma endpoint_of_remove: "endpoint_of (remove_request sid pid) = Some RemoveItem"
  by (simp add: endpoint_of_def remove_request_def is_val_def)

lemma endpoint_of_order: "endpoint_of (order_request od) = Some CreateOrder"
  by (simp add: endpoint_of_def order_request_def)

lemmas endpoint_of_simps = endpoint_of_products endpoint_of_cart endpoint_of_add
  endpoint_of_update endpoint_of_remove endpoint_of_order

lemma session_key_products: "session_key products_request = None"
  by (simp add: session_key_def endpoint_of_products)

lemma session_key_cart: "session_key (cart_request sid) = Some (Str sid)"
  by (simp add: session_key_def endpoint_of_cart) (simp add: cart_request_def get_request_def)

lemma session_key_add: "session_key (add_request sid pid q) = Some (Str sid)"
  by (simp add: session_key_def endpoint_of_add) (simp add: add_request_def)

lemma session_key_update: "session_key (update_request sid pid q) = Some (Str sid)"
  by (simp add: session_key_def endpoint_of_update) (simp add: update_request_def)

lemma session_key_remove: "session_key (remove_request sid pid) = Some (Str sid)"
  by (simp add: session_key_def endpoint_of_remove) (simp add: remove_request_def)

lemma session_key_order:
  "orderData a = Inr od \<Longrightarrow> session_key (order_request od) = Some (Str (sessionId a))"
  by (simp add: session_key_def endpoint_of_order)
     (auto simp: order_request_def orderData_def split: sum.splits)

lemmas session_key_simps = session_key_products session_key_cart session_key_add
  session_key_update session_key_remove

lemma session_key_endpoint: "session_key r = Some v \<Longrightarrow> endpoint_of r \<noteq> None"
  by (cases "endpoint_of r") (simp_all add: session_key_def)

lemma handle_keyed:
  assumes "\<forall>r\<in>set (requests (trace s)).
             endpoint_of r = Some ListProducts
             \<or> session_key r = Some (Str (sessionId (state s)))"
  shows "\<forall>r\<in>set (requests (trace (handle rt be ev s))).
             endpoint_of r = Some ListProducts
             \<or> session_key r = Some (Str (sessionId (state s)))"
  using assms
  by (cases ev)
     (auto simp: op_requests op_session endpoint_of_simps session_key_simps
        dest: session_key_order session_key_order [OF sym] split: sum.splits if_splits)

lemma run_keyed:
  "\<forall>r\<in>set (requests (trace s)).
       endpoint_of r = Some ListProducts
       \<or> session_key r = Some (Str (sessionId (state s))) \<Longrightarrow>
   \<forall>r\<in>set (requests (trace (run rt be evs s))).
       endpoint_of r = Some ListProducts
       \<or> session_key r = Some (Str (sessionId (state s)))"
proof (induction evs arbitrary: s)
  case Nil
  then show ?case by simp
next
  case (Cons ev evs)
  from handle_keyed [OF Cons.prems, of rt be ev]
  have "\<forall>r\<in>set (requests (trace (handle rt be ev s))).
          endpoint_of r = Some ListProducts
          \<or> session_key r = Some (Str (sessionId (state (handle rt be ev s))))"
    by (simp add: handle_session)
  from Cons.IH [OF this] show ?case
    by (simp add: handle_session)
qed

lemma init_keyed:
  "\<forall>r\<in>set (requests (trace (run rt be evs (init sid)))).
       endpoint_of r = Some ListProducts \<or> session_key r = Some (Str sid)"
proof -
  have "\<forall>r\<in>set (requests (trace (init sid))).
          endpoint_of r = Some ListProducts
          \<or> session_key r = Some (Str (sessionId (state (init sid))))"
    by (simp add: init_def)
  from run_keyed [OF this, of rt be evs] show ?thesis
    by (simp add: init_def)
qed

lemma session_key_order_obj:
  "session_key (order_request (Obj ((''session_id'', v) # fs))) = Some v"
  by (simp add: session_key_def endpoint_of_order) (simp add: order_request_def)

subsection \<open>A session that uses every operation\<close>

lemma tour_requests:
  "requests (trace (run no_coercion backend_garbled tour (init ''abc''))) =
     [products_request, cart_request ''abc'', add_request ''abc'' (Str ''p1'') (Num 1),
      update_request ''abc'' (Str ''p1'') (Num 0), remove_request ''abc'' (Str ''p1''),
      cart_request ''abc'', order_request
        (Obj [(''session_id'', Str ''abc''), (''items'', Arr []), (''total'', Num 0),
              (''customer_info'', Obj [(''name'', Str []), (''email'', Str []),
                                       (''phone'', Str []), (''address'', Str [])])])]"
  by (simp add: tour_def brush_def item_at_def op_requests op_session js_minus_nums
        backend_garbled_def)
     (simp add: init_def orderData_def empty_cart_def empty_customer_def customer_obj_def
        fetchProducts_def fetchCart_def addToCart_def updateCartItem_def removeFromCart_def
        step_defs backend_garbled_def Let_def)

lemma tour_endpoints:
  "map endpoint_of (requests (trace (run no_coercion backend_garbled tour (init ''abc'')))) =
     [Some ListProducts, Some GetCart, Some AddItem, Some UpdateItem, Some RemoveItem,
      Some GetCart, Some CreateOrder]"
  by (simp add: tour_requests endpoint_of_simps)

lemma endpoint_UNIV:
  "(UNIV :: endpoint set) =
     {ListProducts, GetCart, AddItem, UpdateItem, RemoveItem, CreateOrder}"
  by (auto intro: endpoint.exhaust)

subsection \<open>Cart mutations\<close>

text \<open>
  Claim C1. Each cart mutation issues its backend request as its first effect and
  changes nothing before it. When the round trip succeeds, the local cart is replaced by
  what the server returned and nothing else in the state changes: after \<open>addToCart\<close> and
  \<open>updateCartItem\<close> the cart is the \<^verbatim>\<open>cart\<close> property of the parsed response of the
  mutation; after \<open>removeFromCart\<close>, which re-reads the cart with \<open>fetchCart\<close> once the
  DELETE has resolved, the cart is the parsed response of that read.
\<close>

theorem cart_mutation_round_trip:
  "(be (requests (trace s))
       (add_request (sessionId (state s)) pid (if q = Undefined then Num 1 else q))
      = Resolved (Json d) \<longrightarrow>
    js_get d ''cart'' = Inr c \<longrightarrow>
    addToCart be pid q s =
      (Inr (), s\<lparr>state := (state s)\<lparr>cart := c\<rparr>,
                 trace := trace s @
                   [Fetch (add_request (sessionId (state s)) pid
                             (if q = Undefined then Num 1 else q)),
                    Set (SetCart c), Alert [Lit ''Item added to cart!'']]\<rparr>))
   \<and> (be (requests (trace s)) (update_request (sessionId (state s)) pid q)
         = Resolved (Json d) \<longrightarrow>
      js_get d ''cart'' = Inr c \<longrightarrow>
      updateCartItem be pid q s =
        (Inr (), s\<lparr>state := (state s)\<lparr>cart := c\<rparr>,
                   trace := trace s @
                     [Fetch (update_request (sessionId (state s)) pid q), Set (SetCart c)]\<rparr>))
   \<and> (be (requests (trace s)) (remove_request (sessionId (state s)) pid) = Resolved resp \<longrightarrow>
      be (requests (trace s) @ [remove_request (sessionId (state s)) pid])
         (cart_request (sessionId (state s))) = Resolved (Json d) \<longrightarrow>
      removeFromCart be pid s =
        (Inr (), s\<lparr>state := (state s)\<lparr>cart := d\<rparr>,
                   trace := trace s @
                     [Fetch (remove_request (sessionId (state s)) pid),
                      Fetch (cart_request (sessionId (state s))), Set (SetCart d)]\<rparr>))
   \<and> prefix (trace s @ [Fetch (add_request (sessionId (state s)) pid
                                  (if q = Undefined then Num 1 else q))])
        (trace (snd (addToCart be pid q s)))
   \<and> prefix (trace s @ [Fetch (update_request (sessionId (state s)) pid q)])
        (trace (snd (updateCartItem be pid q s)))
   \<and> prefix (trace s @ [Fetch (remove_request (sessionId (state s)) pid)])
        (trace (snd (removeFromCart be pid s)))"
proof (intro conjI impI)
  show "prefix (trace s @ [Fetch (add_request (sessionId (state s)) pid
                                    (if q = Undefined then Num 1 else q))])
          (trace (snd (addToCart be pid q s)))"
    by (simp add: addToCart_def step_defs Let_def split: outcome_splits)
  show "prefix (trace s @ [Fetch (update_request (sessionId (state s)) pid q)])
          (trace (snd (updateCartItem be pid q s)))"
    by (simp add: updateCartItem_def step_defs split: outcome_splits)
  show "prefix (trace s @ [Fetch (remove_request (sessionId (state s)) pid)])
          (trace (snd (removeFromCart be pid s)))"
    by (simp add: removeFromCart_def fetchCart_def step_defs split: outcome_splits)
qed (simp_all add: addToCart_def updateCartItem_def removeFromCart_def fetchCart_def
       step_defs Let_def requests_append)

theorem cart_mutation_round_trip_witness:
  "backend_cart [] (add_request ''abc'' (Str ''p1'') (Num 1)) =
     Resolved (Json (Obj [(''message'', Str ''ok''), (''cart'', two_items),
                          (''order_id'', Str ''o1'')]))
   \<and> js_get (Obj [(''message'', Str ''ok''), (''cart'', two_items),
                  (''order_id'', Str ''o1'')]) ''cart'' = Inr two_items
   \<and> backend_cart [remove_request ''abc'' (Str ''p1'')] (cart_request ''abc'') =
       Resolved (Json two_items)
   \<and> addToCart backend_cart (Str ''p1'') Undefined (init ''abc'') =
     (Inr (), (init ''abc'')\<lparr>state := (state (init ''abc''))\<lparr>cart := two_items\<rparr>,
        trace := [Fetch (add_request ''abc'' (Str ''p1'') (Num 1)), Set (SetCart two_items),
                  Alert [Lit ''Item added to cart!'']]\<rparr>)
   \<and> updateCartItem backend_cart (Str ''p1'') (Num 4) (init ''abc'') =
     (Inr (), (init ''abc'')\<lparr>state := (state (init ''abc''))\<lparr>cart := two_items\<rparr>,
        trace := [Fetch (update_request ''abc'' (Str ''p1'') (Num 4)),
                  Set (SetCart two_items)]\<rparr>)
   \<and> removeFromCart backend_cart (Str ''p1'') (init ''abc'') =
     (Inr (), (init ''abc'')\<lparr>state := (state (init ''abc''))\<lparr>cart := two_items\<rparr>,
        trace := [Fetch (remove_request ''abc'' (Str ''p1'')), Fetch (cart_request ''abc''),
                  Set (SetCart two_items)]\<rparr>)"
  using cart_mutation_round_trip [where be = backend_cart and s = "init ''abc''"
      and pid = "Str ''p1''" and q = Undefined and c = two_items
      and d = "Obj [(''message'', Str ''ok''), (''cart'', two_items), (''order_id'', Str ''o1'')]"]
    cart_mutation_round_trip [where be = backend_cart and s = "init ''abc''"
      and pid = "Str ''p1''" and q = "Num 4" and c = two_items
      and d = "Obj [(''message'', Str ''ok''), (''cart'', two_items), (''order_id'', Str ''o1'')]"]
    cart_mutation_round_trip [where be = backend_cart and s = "init ''abc''"
      and pid = "Str ''p1''" and d = two_items
      and resp = "Json (Obj [(''message'', Str ''ok''), (''cart'', two_items),
                             (''order_id'', Str ''o1'')])"]
  by (simp add: backend_cart_def init_def add_request_def update_request_def
        remove_request_def cart_request_def get_request_def products_request_def)

subsection \<open>Failures of the network and of parsing\<close>

text \<open>
  Claim C2. No operation lets an exception reach its caller: the promise of each of the
  six operations is always fulfilled. When \<^verbatim>\<open>fetch\<close> is rejected or \<^verbatim>\<open>json()\<close> fails to parse,
  the operation does nothing more than log the exception with \<^verbatim>\<open>console.error\<close>
  (\<open>submitOrder\<close> also shows an alert; the \<^verbatim>\<open>finally\<close> block of \<open>fetchProducts\<close> clears
  \<open>loading\<close>): the request is not repeated and the state is otherwise as before.
  \<open>removeFromCart\<close> does not parse the response of its DELETE; a failure of the cart read
  that follows is logged by \<open>fetchCart\<close>.
\<close>

theorem errors_caught_and_logged:
  "fst (fetchProducts be s) = Inr () \<and> fst (fetchCart be s) = Inr ()
   \<and> fst (addToCart be pid q s) = Inr () \<and> fst (updateCartItem be pid q s) = Inr ()
   \<and> fst (removeFromCart be pid s) = Inr () \<and> fst (submitOrder be s) = Inr ()
   \<and> (thrown (be (requests (trace s)) products_request) = Some e \<longrightarrow>
        snd (fetchProducts be s) =
          s\<lparr>state := (state s)\<lparr>loading := False\<rparr>,
            trace := trace s @ [Fetch products_request,
                                ConsoleError ''Error fetching products:'' e,
                                Set (SetLoading False)]\<rparr>)
   \<and> (thrown (be (requests (trace s)) (cart_request (sessionId (state s)))) = Some e \<longrightarrow>
        snd (fetchCart be s) =
          s\<lparr>trace := trace s @ [Fetch (cart_request (sessionId (state s))),
                                ConsoleError ''Error fetching cart:'' e]\<rparr>)
   \<and> (thrown (be (requests (trace s))
                 (add_request (sessionId (state s)) pid
                    (if q = Undefined then Num 1 else q))) = Some e \<longrightarrow>
        snd (addToCart be pid q s) =
          s\<lparr>trace := trace s @
               [Fetch (add_request (sessionId (state s)) pid
                         (if q = Undefined then Num 1 else q)),
                ConsoleError ''Error adding to cart:'' e]\<rparr>)
   \<and> (thrown (be (requests (trace s)) (update_request (sessionId (state s)) pid q))
          = Some e \<longrightarrow>
        snd (updateCartItem be pid q s) =
          s\<lparr>trace := trace s @ [Fetch (update_request (sessionId (state s)) pid q),
                                ConsoleError ''Error updating cart:'' e]\<rparr>)
   \<and> (be (requests (trace s)) (remove_request (sessionId (state s)) pid) = Rejected \<longrightarrow>
        snd (removeFromCart be pid s) =
          s\<lparr>trace := trace s @ [Fetch (remove_request (sessionId (state s)) pid),
                                ConsoleError ''Error removing from cart:'' FetchRejected]\<rparr>)
   \<and> (be (requests (trace s)) (remove_request (sessionId (state s)) pid) = Resolved resp \<longrightarrow>
      thrown (be (requests (trace s) @ [remove_request (sessionId (state s)) pid])
                 (cart_request (sessionId (state s)))) = Some e \<longrightarrow>
        snd (removeFromCart be pid s) =
          s\<lparr>trace := trace s @ [Fetch (remove_request (sessionId (state s)) pid),
                                Fetch (cart_request (sessionId (state s))),
                                ConsoleError ''Error fetching cart:'' e]\<rparr>)
   \<and> (orderData (state s) = Inr od \<longrightarrow>
      thrown (be (requests (trace s)) (order_request od)) = Some e \<longrightarrow>
        snd (submitOrder be s) =
          s\<lparr>trace := trace s @ [PreventDefault, Fetch (order_request od),
                                ConsoleError ''Error submitting order:'' e,
                                Alert [Lit ''Error submitting order. Please try again.'']]\<rparr>)"
proof (intro conjI impI)
  show "fst (fetchProducts be s) = Inr ()"
    by (simp add: fetchProducts_def step_defs split: outcome_splits)
  show "fst (fetchCart be s) = Inr ()"
    by (simp add: fetchCart_def step_defs split: outcome_splits)
  show "fst (addToCart be pid q s) = Inr ()"
    by (simp add: addToCart_def step_defs Let_def split: outcome_splits)
  show "fst (updateCartItem be pid q s) = Inr ()"
    by (simp add: updateCartItem_def step_defs split: outcome_splits)
  show "fst (removeFromCart be pid s) = Inr ()"
    by (simp add: removeFromCart_def step_defs split: outcome_splits)
  show "fst (submitOrder be s) = Inr ()"
    by (simp add: submitOrder_def step_defs Let_def split: outcome_splits)
next
  assume "thrown (be (requests (trace s)) products_request) = Some e"
  from thrown_cases [OF this]
  show "snd (fetchProducts be s) =
          s\<lparr>state := (state s)\<lparr>loading := False\<rparr>,
            trace := trace s @ [Fetch products_request,
                                ConsoleError ''Error fetching products:'' e,
                                Set (SetLoading False)]\<rparr>"
    by (auto simp: fetchProducts_def step_defs)
next
  assume "thrown (be (requests (trace s)) (cart_request (sessionId (state s)))) = Some e"
  from thrown_cases [OF this]
  show "snd (fetchCart be s) =
          s\<lparr>trace := trace s @ [Fetch (cart_request (sessionId (state s))),
                                ConsoleError ''Error fetching cart:'' e]\<rparr>"
    by (auto simp: fetchCart_def step_defs)
next
  assume "thrown (be (requests (trace s))
                 (add_request (sessionId (state s)) pid
                    (if q = Undefined then Num 1 else q))) = Some e"
  from thrown_cases [OF this]
  show "snd (addToCart be pid q s) =
          s\<lparr>trace := trace s @
               [Fetch (add_request (sessionId (state s)) pid
                         (if q = Undefined then Num 1 else q)),
                ConsoleError ''Error adding to cart:'' e]\<rparr>"
    by (auto simp: addToCart_def step_defs Let_def)
next
  assume "thrown (be (requests (trace s)) (update_request (sessionId (state s)) pid q))
          = Some e"
  from thrown_cases [OF this]
  show "snd (updateCartItem be pid q s) =
          s\<lparr>trace := trace s @ [Fetch (update_request (sessionId (state s)) pid q),
                                ConsoleError ''Error updating cart:'' e]\<rparr>"
    by (auto simp: updateCartItem_def step_defs)
next
  assume "be (requests (trace s)) (remove_request (sessionId (state s)) pid) = Rejected"
  then show "snd (removeFromCart be pid s) =
          s\<lparr>trace := trace s @ [Fetch (remove_request (sessionId (state s)) pid),
                                ConsoleError ''Error removing from cart:'' FetchRejected]\<rparr>"
    by (simp add: removeFromCart_def step_defs)
next
  assume r: "be (requests (trace s)) (remove_request (sessionId (state s)) pid)
             = Resolved resp"
  assume "thrown (be (requests (trace s) @ [remove_request (sessionId (state s)) pid])
                 (cart_request (sessionId (state s)))) = Some e"
  from thrown_cases [OF this] r
  show "snd (removeFromCart be pid s) =
          s\<lparr>trace := trace s @ [Fetch (remove_request (sessionId (state s)) pid),
                                Fetch (cart_request (sessionId (state s))),
                                ConsoleError ''Error fetching cart:'' e]\<rparr>"
    by (auto simp: removeFromCart_def fetchCart_def step_defs requests_append)
next
  assume od: "orderData (state s) = Inr od"
  assume "thrown (be (requests (trace s)) (order_request od)) = Some e"
  from thrown_cases [OF this] od
  show "snd (submitOrder be s) =
          s\<lparr>trace := trace s @ [PreventDefault, Fetch (order_request od),
                                ConsoleError ''Error submitting order:'' e,
                                Alert [Lit ''Error submitting order. Please try again.'']]\<rparr>"
    by (auto simp: submitOrder_def step_defs Let_def requests_append)
qed

theorem errors_caught_and_logged_witness:
  "thrown (backend_down [] products_request) = Some FetchRejected
   \<and> fetchProducts backend_down (init ''abc'') =
       (Inr (), (init ''abc'')\<lparr>state := (state (init ''abc''))\<lparr>loading := False\<rparr>,
          trace := [Fetch products_request,
                    ConsoleError ''Error fetching products:'' FetchRejected,
                    Set (SetLoading False)]\<rparr>)
   \<and> thrown (backend_down [] (cart_request ''abc'')) = Some FetchRejected
   \<and> fetchCart backend_down (init ''abc'') =
       (Inr (), (init ''abc'')\<lparr>trace := [Fetch (cart_request ''abc''),
                    ConsoleError ''Error fetching cart:'' FetchRejected]\<rparr>)
   \<and> thrown (backend_garbled [] (add_request ''abc'' (Str ''p1'') (Num 1))) = Some SyntaxError
   \<and> addToCart backend_garbled (Str ''p1'') Undefined (init ''abc'') =
       (Inr (), (init ''abc'')\<lparr>trace := [Fetch (add_request ''abc'' (Str ''p1'') (Num 1)),
                    ConsoleError ''Error adding to cart:'' SyntaxError]\<rparr>)
   \<and> thrown (backend_garbled [] (update_request ''abc'' (Str ''p1'') (Num 4))) = Some SyntaxError
   \<and> updateCartItem backend_garbled (Str ''p1'') (Num 4) (init ''abc'') =
       (Inr (), (init ''abc'')\<lparr>trace := [Fetch (update_request ''abc'' (Str ''p1'') (Num 4)),
                    ConsoleError ''Error updating cart:'' SyntaxError]\<rparr>)
   \<and> backend_down [] (remove_request ''abc'' (Str ''p1'')) = Rejected
   \<and> removeFromCart backend_down (Str ''p1'') (init ''abc'') =
       (Inr (), (init ''abc'')\<lparr>trace := [Fetch (remove_request ''abc'' (Str ''p1'')),
                    ConsoleError ''Error removing from cart:'' FetchRejected]\<rparr>)
   \<and> backend_garbled [] (remove_request ''abc'' (Str ''p1'')) = Resolved Unparsable
   \<and> thrown (backend_garbled [remove_request ''abc'' (Str ''p1'')] (cart_request ''abc''))
       = Some SyntaxError
   \<and> removeFromCart backend_garbled (Str ''p1'') (init ''abc'') =
       (Inr (), (init ''abc'')\<lparr>trace := [Fetch (remove_request ''abc'' (Str ''p1'')),
                    Fetch (cart_request ''abc''),
                    ConsoleError ''Error fetching cart:'' SyntaxError]\<rparr>)
   \<and> orderData (state checkout_open) = Inr checkout_order
   \<and> thrown (backend_down [] (order_request checkout_order)) = Some FetchRejected
   \<and> submitOrder backend_down checkout_open =
       (Inr (), checkout_open\<lparr>trace := [PreventDefault, Fetch (order_request checkout_order),
                    ConsoleError ''Error submitting order:'' FetchRejected,
                    Alert [Lit ''Error submitting order. Please try again.'']]\<rparr>)"
proof -
  have start: "sessionId (state (init ''abc'')) = ''abc''" "trace (init ''abc'') = []"
    "trace checkout_open = []"
    by (simp_all add: init_def checkout_open_def)
  have down: "\<And>h r. backend_down h r = Rejected"
    and garbled: "\<And>h r. backend_garbled h r = Resolved Unparsable"
    by (simp_all add: backend_down_def backend_garbled_def)
  note down_init = errors_caught_and_logged [where be = backend_down and s = "init ''abc''"
      and pid = "Str ''p1''" and e = FetchRejected]
  note garbled_init = errors_caught_and_logged [where be = backend_garbled
      and s = "init ''abc''" and pid = "Str ''p1''" and e = SyntaxError and resp = Unparsable]
  note down_checkout = errors_caught_and_logged [where be = backend_down and s = checkout_open
      and od = checkout_order and e = FetchRejected]
  from down_init have a: "fetchProducts backend_down (init ''abc'') =
       (Inr (), (init ''abc'')\<lparr>state := (state (init ''abc''))\<lparr>loading := False\<rparr>,
          trace := [Fetch products_request,
                    ConsoleError ''Error fetching products:'' FetchRejected,
                    Set (SetLoading False)]\<rparr>)"
    by (simp add: down start prod_eq_iff)
  from down_init have b: "fetchCart backend_down (init ''abc'') =
       (Inr (), (init ''abc'')\<lparr>trace := [Fetch (cart_request ''abc''),
                    ConsoleError ''Error fetching cart:'' FetchRejected]\<rparr>)"
    by (simp add: down start prod_eq_iff)
  from garbled_init [where q = Undefined]
  have c: "addToCart backend_garbled (Str ''p1'') Undefined (init ''abc'') =
       (Inr (), (init ''abc'')\<lparr>trace := [Fetch (add_request ''abc'' (Str ''p1'') (Num 1)),
                    ConsoleError ''Error adding to cart:'' SyntaxError]\<rparr>)"
    by (simp add: garbled start prod_eq_iff)
  from garbled_init [where q = "Num 4"]
  have d: "updateCartItem backend_garbled (Str ''p1'') (Num 4) (init ''abc'') =
       (Inr (), (init ''abc'')\<lparr>trace := [Fetch (update_request ''abc'' (Str ''p1'') (Num 4)),
                    ConsoleError ''Error updating cart:'' SyntaxError]\<rparr>)"
    by (simp add: garbled start prod_eq_iff)
  from down_init have e: "removeFromCart backend_down (Str ''p1'') (init ''abc'') =
       (Inr (), (init ''abc'')\<lparr>trace := [Fetch (remove_request ''abc'' (Str ''p1'')),
                    ConsoleError ''Error removing from cart:'' FetchRejected]\<rparr>)"
    by (simp add: down start prod_eq_iff)
  from garbled_init [where q = Undefined]
  have f: "removeFromCart backend_garbled (Str ''p1'') (init ''abc'') =
       (Inr (), (init ''abc'')\<lparr>trace := [Fetch (remove_request ''abc'' (Str ''p1'')),
                    Fetch (cart_request ''abc''),
                    ConsoleError ''Error fetching cart:'' SyntaxError]\<rparr>)"
    by (simp add: garbled start prod_eq_iff)
  from down_checkout have g: "submitOrder backend_down checkout_open =
       (Inr (), checkout_open\<lparr>trace := [PreventDefault, Fetch (order_request checkout_order),
                    ConsoleError ''Error submitting order:'' FetchRejected,
                    Alert [Lit ''Error submitting order. Please try again.'']]\<rparr>)"
    by (simp add: down start orderData_checkout_open prod_eq_iff)
  show ?thesis
    using a b c d e f g by (simp add: down garbled orderData_checkout_open)
qed

subsection \<open>What the cart button and the totals show\<close>

lemma reduce_quantity_nums:
  "map (\<lambda>x. js_get x ''quantity'') xs = map (\<lambda>q. Inr (Num q)) qs \<Longrightarrow>
     reduce_quantity rt (Num a) xs = Inr (Num (a + sum_list qs))"
proof (induction xs arbitrary: a qs)
  case Nil
  then show ?case by simp
next
  case (Cons x xs)
  then obtain q qs' where qs: "qs = q # qs'" by (cases qs) auto
  with Cons.prems have "js_get x ''quantity'' = Inr (Num q)"
    and "map (\<lambda>x. js_get x ''quantity'') xs = map (\<lambda>q. Inr (Num q)) qs'"
    by simp_all
  with Cons.IH [of qs' "a + q"] qs show ?case
    by (simp add: js_plus_nums add.assoc)
qed

text \<open>
  Claim C3, as the spec states it, fails: the badge of the cart button shows a sum that
  the client computes over the cart items. With two items of quantities 2 and 3 it shows
  5, a number that occurs nowhere in the cart the server sent.
\<close>

theorem badge_sum_counterexample:
  "cart_badge no_coercion (state checkout_open) = Inr (Some (Num 5))
   \<and> Num 5 \<notin> set (values_in (cart (state checkout_open)))"
  by (simp add: cart_badge_def checkout_open_def two_items_def js_gt0_def js_plus_def)

text \<open>
  Claim C3, amended. The total shown in the cart modal and in the checkout form is the
  \<^verbatim>\<open>total\<close> property of the cart, formatted to two decimals: the client computes no sum of
  prices. The cart button shows the length of \<^verbatim>\<open>cart.items\<close>, and over a cart that is not
  empty a badge with the sum of the quantities of the items, both computed by the client.
\<close>

theorem shown_totals:
  "(js_get (cart a) ''total'' = Inr (Num t) \<longrightarrow> cart_total a = Inr (Fixed t 2))
   \<and> (js_get (cart a) ''items'' = Inr (Arr xs) \<longrightarrow>
        cart_count a = Inr (Num (of_nat (length xs))))
   \<and> (js_get (cart a) ''items'' = Inr (Arr xs) \<longrightarrow> xs \<noteq> [] \<longrightarrow>
      map (\<lambda>x. js_get x ''quantity'') xs = map (\<lambda>q. Inr (Num q)) qs \<longrightarrow>
        cart_badge rt a = Inr (Some (Num (sum_list qs))))"
proof (intro conjI impI)
  assume "js_get (cart a) ''total'' = Inr (Num t)"
  then show "cart_total a = Inr (Fixed t 2)"
    by (simp add: cart_total_def)
next
  assume "js_get (cart a) ''items'' = Inr (Arr xs)"
  then show "cart_count a = Inr (Num (of_nat (length xs)))"
    by (simp add: cart_count_def)
next
  assume its: "js_get (cart a) ''items'' = Inr (Arr xs)" and ne: "xs \<noteq> []"
    and "map (\<lambda>x. js_get x ''quantity'') xs = map (\<lambda>q. Inr (Num q)) qs"
  from reduce_quantity_nums [OF this(3), of rt 0] its ne
  show "cart_badge rt a = Inr (Some (Num (sum_list qs)))"
    by (simp add: cart_badge_def js_gt0_def)
qed

theorem shown_totals_witness:
  "js_get (cart (state checkout_open)) ''total'' = Inr (Num 32)
   \<and> js_get (cart (state checkout_open)) ''items'' =
       Inr (Arr [Obj [(''product_id'', Str ''p1''), (''quantity'', Num 2), (''price'', Num 10)],
                 Obj [(''product_id'', Str ''p2''), (''quantity'', Num 3), (''price'', Num 4)]])
   \<and> cart_total (state checkout_open) = Inr (Fixed 32 2)
   \<and> cart_count (state checkout_open) = Inr (Num 2)
   \<and> cart_badge no_coercion (state checkout_open) = Inr (Some (Num (sum_list [2, 3])))"
  using shown_totals [where a = "state checkout_open" and t = 32 and rt = no_coercion
      and qs = "[2, 3]"
      and xs = "[Obj [(''product_id'', Str ''p1''), (''quantity'', Num 2), (''price'', Num 10)],
                 Obj [(''product_id'', Str ''p2''), (''quantity'', Num 3), (''price'', Num 4)]]"]
  by (simp add: checkout_open_def two_items_def)

subsection \<open>Submitting an order\<close>

text \<open>
  Claim C4. When the POST of \<open>submitOrder\<close> is rejected, or its response does not parse,
  the state is left as it was: cart, customer details and both visibility flags keep
  their values. After the request, the only effects are one \<^verbatim>\<open>console.error\<close> and the error
  alert.
\<close>

theorem failed_order_keeps_state:
  assumes "orderData (state s) = Inr od"
    and "be (requests (trace s)) (order_request od) = Rejected
         \<or> be (requests (trace s)) (order_request od) = Resolved Unparsable"
  shows "state (snd (submitOrder be s)) = state s
    \<and> trace (snd (submitOrder be s)) =
        trace s @ [PreventDefault, Fetch (order_request od),
                   ConsoleError ''Error submitting order:''
                     (if be (requests (trace s)) (order_request od) = Rejected
                      then FetchRejected else SyntaxError),
                   Alert [Lit ''Error submitting order. Please try again.'']]"
  using assms by (auto simp: submitOrder_def step_defs Let_def requests_append)

theorem failed_order_keeps_state_witness:
  "orderData (state checkout_open) = Inr checkout_order
   \<and> backend_garbled (requests (trace checkout_open)) (order_request checkout_order)
       = Resolved Unparsable
   \<and> state (snd (submitOrder backend_garbled checkout_open)) = state checkout_open
   \<and> cart (state (snd (submitOrder backend_garbled checkout_open))) = two_items
   \<and> showCheckout (state (snd (submitOrder backend_garbled checkout_open)))
   \<and> trace (snd (submitOrder backend_garbled checkout_open)) =
        [PreventDefault, Fetch (order_request checkout_order),
         ConsoleError ''Error submitting order:'' SyntaxError,
         Alert [Lit ''Error submitting order. Please try again.'']]"
proof -
  have g: "backend_garbled (requests (trace checkout_open)) (order_request checkout_order)
           = Resolved Unparsable"
    by (simp add: backend_garbled_def)
  from failed_order_keeps_state [where be = backend_garbled and s = checkout_open
      and od = checkout_order]
  show ?thesis
    by (simp add: orderData_checkout_open g) (simp add: checkout_open_def)
qed




text \<open>
  Claim C7. The record that \<open>submitOrder\<close> posts to \<^verbatim>\<open>/api/orders\<close> has exactly the four
  fields \<^verbatim>\<open>session_id\<close>, \<^verbatim>\<open>items\<close>, \<^verbatim>\<open>total\<close> and \<^verbatim>\<open>customer_info\<close>: the session identifier, the
  \<^verbatim>\<open>items\<close> and \<^verbatim>\<open>total\<close> of the cart in the state as they are, and the customer details of
  the form. It is the only request of the operation. Whenever the expressions that the
  cart button and the checkout form render, \<^verbatim>\<open>cart.items.length\<close> and
  \<^verbatim>\<open>cart.total.toFixed(2)\<close>, have a value, neither \<^verbatim>\<open>items\<close> nor \<^verbatim>\<open>total\<close> is \<^verbatim>\<open>undefined\<close>, so
  that \<^verbatim>\<open>JSON.stringify\<close> keeps all four fields in the text it sends.
\<close>

theorem order_record_fields:
  "(js_get (cart (state s)) ''items'' = Inr its \<longrightarrow>
    js_get (cart (state s)) ''total'' = Inr tot \<longrightarrow>
      new_requests s (snd (submitOrder be s)) =
       [\<lparr>req_method = POST, url = [API_BASE, Lit ''/api/orders''],
         headers = [(''Content-Type'', ''application/json'')],
         body = Some (Obj [(''session_id'', Str (sessionId (state s))),
                           (''items'', its), (''total'', tot),
                           (''customer_info'',
                            Obj [(''name'', Str (name (customerInfo (state s)))),
                                 (''email'', Str (email (customerInfo (state s)))),
                                 (''phone'', Str (phone (customerInfo (state s)))),
                                 (''address'', Str (address (customerInfo (state s))))])])\<rparr>])
   \<and> (cart_count (state s) = Inr n \<longrightarrow> cart_total (state s) = Inr t \<longrightarrow>
        js_get (cart (state s)) ''items'' \<noteq> Inr Undefined
        \<and> js_get (cart (state s)) ''total'' \<noteq> Inr Undefined
        \<and> new_requests s (snd (submitOrder be s)) \<noteq> [])"
proof (intro conjI impI)
  assume "js_get (cart (state s)) ''items'' = Inr its"
    and "js_get (cart (state s)) ''total'' = Inr tot"
  then show "new_requests s (snd (submitOrder be s)) =
       [\<lparr>req_method = POST, url = [API_BASE, Lit ''/api/orders''],
         headers = [(''Content-Type'', ''application/json'')],
         body = Some (Obj [(''session_id'', Str (sessionId (state s))),
                           (''items'', its), (''total'', tot),
                           (''customer_info'',
                            Obj [(''name'', Str (name (customerInfo (state s)))),
                                 (''email'', Str (email (customerInfo (state s)))),
                                 (''phone'', Str (phone (customerInfo (state s)))),
                                 (''address'', Str (address (customerInfo (state s))))])])\<rparr>]"
    by (simp add: new_requests_def submitOrder_requests orderData_def order_request_def
          customer_obj_def)
next
  assume n: "cart_count (state s) = Inr n" and t: "cart_total (state s) = Inr t"
  from n show "js_get (cart (state s)) ''items'' \<noteq> Inr Undefined"
    by (auto simp: cart_count_def split: sum.splits)
  from t show "js_get (cart (state s)) ''total'' \<noteq> Inr Undefined"
    by (auto simp: cart_total_def split: sum.splits)
  from n t show "new_requests s (snd (submitOrder be s)) \<noteq> []"
    by (auto simp: new_requests_def submitOrder_requests orderData_def cart_count_def
          cart_total_def split: sum.splits)
qed

theorem order_record_fields_witness:
  "js_get (cart (state checkout_open)) ''items'' =
     Inr (Arr [Obj [(''product_id'', Str ''p1''), (''quantity'', Num 2), (''price'', Num 10)],
               Obj [(''product_id'', Str ''p2''), (''quantity'', Num 3), (''price'', Num 4)]])
   \<and> js_get (cart (state checkout_open)) ''total'' = Inr (Num 32)
   \<and> cart_count (state checkout_open) = Inr (Num 2)
   \<and> cart_total (state checkout_open) = Inr (Fixed 32 2)
   \<and> new_requests checkout_open (snd (submitOrder backend_cart checkout_open)) =
       [\<lparr>req_method = POST, url = [API_BASE, Lit ''/api/orders''],
         headers = [(''Content-Type'', ''application/json'')],
         body = Some checkout_order\<rparr>]"
  using order_record_fields [where s = checkout_open and be = backend_cart and tot = "Num 32"
      and its = "Arr [Obj [(''product_id'', Str ''p1''), (''quantity'', Num 2), (''price'', Num 10)],
                      Obj [(''product_id'', Str ''p2''), (''quantity'', Num 3), (''price'', Num 4)]]"
      and n = "Num 2" and t = "Fixed 32 2"]
  by (simp add: checkout_open_def two_items_def checkout_order_def cart_count_def
        cart_total_def)

subsection \<open>The session identifier\<close>

text \<open>
  Claim C6. The session identifier is fixed when the component is initialised and is the
  same after any sequence of events. Every request of a session other than the product
  list carries it: the cart requests (get, add, update, remove) as the value interpolated
  after \<^verbatim>\<open>/api/cart/\<close> in the URL, the order as its \<^verbatim>\<open>session_id\<close> field.
\<close>

theorem session_identifier_fixed:
  "sessionId (state (run rt be evs (init sid))) = sid
   \<and> (\<forall>r\<in>set (requests (trace (run rt be evs (init sid)))).
        endpoint_of r = Some ListProducts \<or> session_key r = Some (Str sid))"
  using init_keyed [of rt be evs sid] by (simp add: run_session) (simp add: init_def)

theorem session_identifier_fixed_witness:
  "sessionId (state (run no_coercion backend_garbled tour (init ''abc''))) = ''abc''
   \<and> map endpoint_of (requests (trace (run no_coercion backend_garbled tour (init ''abc'')))) =
       [Some ListProducts, Some GetCart, Some AddItem, Some UpdateItem, Some RemoveItem,
        Some GetCart, Some CreateOrder]
   \<and> map session_key (requests (trace (run no_coercion backend_garbled tour (init ''abc'')))) =
       [None, Some (Str ''abc''), Some (Str ''abc''), Some (Str ''abc''), Some (Str ''abc''),
        Some (Str ''abc''), Some (Str ''abc'')]"
  using session_identifier_fixed [of no_coercion backend_garbled tour "''abc''"]
  by (simp add: tour_endpoints)
     (simp add: tour_requests session_key_simps session_key_order_obj)

subsection \<open>The endpoints the component contacts\<close>

text \<open>
  Claim C8, as the spec states it, fails twice. \<open>removeFromCart\<close> contacts two endpoints:
  once its DELETE has resolved it also reads the cart. And a session that uses every
  operation contacts six distinct endpoints, not five.
\<close>

theorem endpoints_counterexample:
  "map endpoint_of
     (new_requests (init ''abc'')
        (snd (removeFromCart backend_garbled (Str ''p1'') (init ''abc''))))
     = [Some RemoveItem, Some GetCart]
   \<and> remdups (map endpoint_of
        (requests (trace (run no_coercion backend_garbled tour (init ''abc''))))) =
       [Some ListProducts, Some AddItem, Some UpdateItem, Some RemoveItem, Some GetCart,
        Some CreateOrder]"
  by (simp add: tour_endpoints new_requests_def removeFromCart_requests endpoint_of_simps
        backend_garbled_def)

text \<open>
  Claim C8, amended. The component contacts six endpoints and no other: list products,
  get cart, add cart item, update cart item, remove cart item and create order, each of
  them in some session. \<open>fetchProducts\<close>, \<open>fetchCart\<close>, \<open>addToCart\<close> and \<open>updateCartItem\<close> send
  exactly one request, to their own endpoint. \<open>submitOrder\<close> sends one request, to create
  order, or none when reading the cart throws. \<open>removeFromCart\<close> sends its DELETE and,
  unless that is rejected, a get cart request after it.
\<close>

theorem six_endpoints:
  "(\<forall>r\<in>set (requests (trace (run rt be evs (init sid)))). endpoint_of r \<noteq> None)
   \<and> map endpoint_of (new_requests s (snd (fetchProducts be s))) = [Some ListProducts]
   \<and> map endpoint_of (new_requests s (snd (fetchCart be s))) = [Some GetCart]
   \<and> map endpoint_of (new_requests s (snd (addToCart be pid q s))) = [Some AddItem]
   \<and> map endpoint_of (new_requests s (snd (updateCartItem be pid q s))) = [Some UpdateItem]
   \<and> map endpoint_of (new_requests s (snd (removeFromCart be pid s))) =
       (if be (requests (trace s)) (remove_request (sessionId (state s)) pid) = Rejected
        then [Some RemoveItem] else [Some RemoveItem, Some GetCart])
   \<and> map endpoint_of (new_requests s (snd (submitOrder be s))) =
       (case orderData (state s) of Inl e \<Rightarrow> [] | Inr od \<Rightarrow> [Some CreateOrder])
   \<and> {ep. \<exists>rt be evs sid.
             Some ep \<in> endpoint_of ` set (requests (trace (run rt be evs (init sid))))} = UNIV
   \<and> card (UNIV :: endpoint set) = 6"
proof (intro conjI)
  show "\<forall>r\<in>set (requests (trace (run rt be evs (init sid)))). endpoint_of r \<noteq> None"
    using init_keyed [of rt be evs sid] by (auto dest: session_key_endpoint)
  show "card (UNIV :: endpoint set) = 6"
    by (simp add: endpoint_UNIV)
  have "Some ep \<in> endpoint_of `
          set (requests (trace (run no_coercion backend_garbled tour (init ''abc''))))" for ep
    using tour_endpoints by (cases ep) (simp_all add: image_iff flip: set_map)
  then show "{ep. \<exists>rt be evs sid.
             Some ep \<in> endpoint_of ` set (requests (trace (run rt be evs (init sid))))} = UNIV"
    by blast
qed (simp_all add: new_requests_def op_requests endpoint_of_simps split: sum.splits)

theorem six_endpoints_witness:
  "map endpoint_of (requests (trace (run no_coercion backend_garbled tour (init ''abc'')))) =
     [Some ListProducts, Some GetCart, Some AddItem, Some UpdateItem, Some RemoveItem,
      Some GetCart, Some CreateOrder]
   \<and> list_all (\<lambda>r. endpoint_of r \<noteq> None)
       (requests (trace (run no_coercion backend_garbled tour (init ''abc''))))
   \<and> map endpoint_of (new_requests (init ''abc'')
        (snd (removeFromCart backend_down (Str ''p1'') (init ''abc'')))) = [Some RemoveItem]"
  using six_endpoints [where rt = no_coercion and be = backend_garbled and evs = tour
      and sid = "''abc''"]
    six_endpoints [where be = backend_down and s = "init ''abc''" and pid = "Str ''p1''"]
  by (simp add: tour_endpoints list_all_iff backend_down_def)


subsection \<open>Views\<close>








































subsection \<open>The decrement button\<close>



end
